theory Spec2Isabelle
  imports Main "HOL-Library.Sublist" "HOL-Library.Multiset"
begin

section \<open>JavaScript strings and numbers\<close>

text \<open>
  Strings are lists of 8-bit characters, read as the code units below 256; the fallback
  catalog and every literal of the server are ASCII. Numbers that the handlers compute
  with are integers (limits, list lengths, scores, millisecond timestamps): they are
  modelled as mathematical integers, which is what IEEE doubles give for magnitudes
  below \<open>2^53\<close>. A \<open>NaN\<close> is the value \<open>None\<close> of an \<open>int option\<close>.
\<close>

definition isWhiteSpace :: "char \<Rightarrow> bool" where
  \<comment> \<open>the white space and line terminator code units below 256\<close>
  "isWhiteSpace c \<longleftrightarrow>
     c = CHR 0x09 \<or> c = CHR 0x0A \<or> c = CHR 0x0B \<or> c = CHR 0x0C \<or> c = CHR 0x0D
     \<or> c = CHR 0x20 \<or> c = CHR 0xA0"

definition trim :: "string \<Rightarrow> string" where
  "trim s = rev (dropWhile isWhiteSpace (rev (dropWhile isWhiteSpace s)))"

definition toLowerChar :: "char \<Rightarrow> char" where
  \<comment> \<open>the letters A to Z, and the capital letters of the range 192 to 222 (215, the
      multiplication sign, is none)\<close>
  "toLowerChar c =
     (let n = (of_char c :: nat) in
      if (65 \<le> n \<and> n \<le> 90) \<or> (192 \<le> n \<and> n \<le> 222 \<and> n \<noteq> 215) then char_of (n + 32)
      else c)"

definition toLowerCase :: "string \<Rightarrow> string" where
  "toLowerCase s = map toLowerChar s"

fun startsWith :: "string \<Rightarrow> string \<Rightarrow> bool" where
  "startsWith s [] = True"
| "startsWith [] (c # cs) = False"
| "startsWith (x # xs) (c # cs) = (x = c \<and> startsWith xs cs)"


fun str_includes :: "string \<Rightarrow> string \<Rightarrow> bool" where
  \<comment> \<open>\<open>s.includes(q)\<close>: \<open>q\<close> occurs in \<open>s\<close> as a contiguous substring\<close>
  "str_includes [] q = (q = [])"
| "str_includes (x # xs) q = (startsWith (x # xs) q \<or> str_includes xs q)"

fun split_when :: "(char \<Rightarrow> bool) \<Rightarrow> string \<Rightarrow> string list" where
  \<comment> \<open>cut at every character satisfying \<open>P\<close>; the pieces may be empty\<close>
  "split_when P [] = [[]]"
| "split_when P (c # cs) =
     (if P c then [] # split_when P cs
      else (case split_when P cs of [] \<Rightarrow> [[c]] | p # ps \<Rightarrow> (c # p) # ps))"

fun join :: "string \<Rightarrow> string list \<Rightarrow> string" where
  "join sep [] = []"
| "join sep [p] = p"
| "join sep (p # p' # ps) = p @ sep @ join sep (p' # ps)"

definition digitValue :: "char \<Rightarrow> nat option" where
  "digitValue c =
     (let n = (of_char c :: nat) in
      if 48 \<le> n \<and> n \<le> 57 then Some (n - 48)
      else if 97 \<le> n \<and> n \<le> 102 then Some (n - 87)
      else if 65 \<le> n \<and> n \<le> 70 then Some (n - 55)
      else None)"

definition isDigitIn :: "nat \<Rightarrow> char \<Rightarrow> bool" where
  "isDigitIn R c = (case digitValue c of None \<Rightarrow> False | Some v \<Rightarrow> v < R)"

definition digitsValue :: "nat \<Rightarrow> string \<Rightarrow> nat" where
  "digitsValue R ds = foldl (\<lambda>acc c. acc * R + (case digitValue c of None \<Rightarrow> 0 | Some v \<Rightarrow> v)) 0 ds"

definition stripSign :: "string \<Rightarrow> int \<times> string" where
  "stripSign s =
     (case s of
        [] \<Rightarrow> (1, [])
      | c # r \<Rightarrow> if c = CHR ''-'' then (- 1, r) else if c = CHR ''+'' then (1, r) else (1, s))"

definition parseDigits :: "int \<Rightarrow> nat \<Rightarrow> string \<Rightarrow> int option" where
  \<comment> \<open>the longest prefix of radix-\<open>R\<close> digits; \<open>NaN\<close> when there is none\<close>
  "parseDigits sign R s =
     (let Z = takeWhile (isDigitIn R) s
      in if Z = [] then None else Some (sign * int (digitsValue R Z)))"

definition parseInt10 :: "string \<Rightarrow> int option" where
  \<comment> \<open>\<open>parseInt(str, 10)\<close>\<close>
  "parseInt10 str =
     (case stripSign (dropWhile isWhiteSpace str) of (sign, s) \<Rightarrow> parseDigits sign 10 s)"

definition parseInt :: "string \<Rightarrow> int option" where
  \<comment> \<open>\<open>parseInt(str)\<close> with the radix left out: a \<open>0x\<close> prefix selects radix 16\<close>
  "parseInt str =
     (case stripSign (dropWhile isWhiteSpace str) of
        (sign, s) \<Rightarrow>
          if startsWith s ''0x'' \<or> startsWith s ''0X'' then parseDigits sign 16 (drop 2 s)
          else parseDigits sign 10 s)"

definition slice0 :: "'a list \<Rightarrow> int \<Rightarrow> 'a list" where
  \<comment> \<open>\<open>xs.slice(0, e)\<close>: a negative end counts from the end of the array\<close>
  "slice0 xs e = (if e < 0 then take (nat (int (length xs) + e)) xs else take (nat e) xs)"

section \<open>The fallback catalog (tools/catalog.ts)\<close>

record ToolCatalogEntry =
  t_id :: string
  t_name :: string
  t_title :: string
  t_description :: string
  t_url :: string

definition repoUrl :: string where
  "repoUrl = ''https://github.com/TaazKareem/clickup-mcp-server''"

definition toolCatalog :: "ToolCatalogEntry list" where
  "toolCatalog = [
    \<lparr>t_id = ''tool:search'', t_name = ''search'', t_title = ''Search'',
      t_description = ''Universal retrieval: search by keywords and return top-k IDs.'', t_url = repoUrl\<rparr>,
    \<lparr>t_id = ''tool:fetch'', t_name = ''fetch'', t_title = ''Fetch'',
      t_description = ''Universal retrieval: fetch a single document by ID and return id, title, text, url, metadata.'', t_url = repoUrl\<rparr>,
    \<lparr>t_id = ''tool:get_workspace_hierarchy'', t_name = ''get_workspace_hierarchy'', t_title = ''Get Workspace Hierarchy'',
      t_description = ''Gets complete workspace hierarchy (spaces, folders, lists).'', t_url = repoUrl\<rparr>,
    \<lparr>t_id = ''tool:create_task'', t_name = ''create_task'', t_title = ''Create Task'',
      t_description = ''Creates a ClickUp task in a list.'', t_url = repoUrl\<rparr>,
    \<lparr>t_id = ''tool:update_task'', t_name = ''update_task'', t_title = ''Update Task'',
      t_description = ''Updates an existing ClickUp task.'', t_url = repoUrl\<rparr>,
    \<lparr>t_id = ''tool:move_task'', t_name = ''move_task'', t_title = ''Move Task'',
      t_description = ''Moves a ClickUp task to another list.'', t_url = repoUrl\<rparr>,
    \<lparr>t_id = ''tool:duplicate_task'', t_name = ''duplicate_task'', t_title = ''Duplicate Task'',
      t_description = ''Duplicates a ClickUp task.'', t_url = repoUrl\<rparr>,
    \<lparr>t_id = ''tool:get_task'', t_name = ''get_task'', t_title = ''Get Task'',
      t_description = ''Retrieves a ClickUp task by ID.'', t_url = repoUrl\<rparr>,
    \<lparr>t_id = ''tool:delete_task'', t_name = ''delete_task'', t_title = ''Delete Task'',
      t_description = ''Deletes a ClickUp task by ID.'', t_url = repoUrl\<rparr>,
    \<lparr>t_id = ''tool:get_task_comments'', t_name = ''get_task_comments'', t_title = ''Get Task Comments'',
      t_description = ''Gets comments for a ClickUp task.'', t_url = repoUrl\<rparr>,
    \<lparr>t_id = ''tool:create_task_comment'', t_name = ''create_task_comment'', t_title = ''Create Task Comment'',
      t_description = ''Creates a new comment on a ClickUp task.'', t_url = repoUrl\<rparr>,
    \<lparr>t_id = ''tool:attach_task_file'', t_name = ''attach_task_file'', t_title = ''Attach Task File'',
      t_description = ''Attaches a file to a ClickUp task.'', t_url = repoUrl\<rparr>,
    \<lparr>t_id = ''tool:get_workspace_tasks'', t_name = ''get_workspace_tasks'', t_title = ''Get Workspace Tasks'',
      t_description = ''Retrieves tasks across the workspace with filters.'', t_url = repoUrl\<rparr>,
    \<lparr>t_id = ''tool:get_task_time_entries'', t_name = ''get_task_time_entries'', t_title = ''Get Task Time Entries'',
      t_description = ''Gets time entries for a task.'', t_url = repoUrl\<rparr>,
    \<lparr>t_id = ''tool:start_time_tracking'', t_name = ''start_time_tracking'', t_title = ''Start Time Tracking'',
      t_description = ''Starts time tracking for a task.'', t_url = repoUrl\<rparr>,
    \<lparr>t_id = ''tool:stop_time_tracking'', t_name = ''stop_time_tracking'', t_title = ''Stop Time Tracking'',
      t_description = ''Stops time tracking for a task.'', t_url = repoUrl\<rparr>,
    \<lparr>t_id = ''tool:add_time_entry'', t_name = ''add_time_entry'', t_title = ''Add Time Entry'',
      t_description = ''Adds a manual time entry to a task.'', t_url = repoUrl\<rparr>,
    \<lparr>t_id = ''tool:delete_time_entry'', t_name = ''delete_time_entry'', t_title = ''Delete Time Entry'',
      t_description = ''Deletes a time entry from a task.'', t_url = repoUrl\<rparr>,
    \<lparr>t_id = ''tool:get_current_time_entry'', t_name = ''get_current_time_entry'', t_title = ''Get Current Time Entry'',
      t_description = ''Gets currently running time entry.'', t_url = repoUrl\<rparr>,
    \<lparr>t_id = ''tool:create_list'', t_name = ''create_list'', t_title = ''Create List'',
      t_description = ''Creates a list within a folder or space.'', t_url = repoUrl\<rparr>,
    \<lparr>t_id = ''tool:create_list_in_folder'', t_name = ''create_list_in_folder'', t_title = ''Create List in Folder'',
      t_description = ''Creates a list within a folder.'', t_url = repoUrl\<rparr>,
    \<lparr>t_id = ''tool:get_list'', t_name = ''get_list'', t_title = ''Get List'',
      t_description = ''Retrieves a list by ID.'', t_url = repoUrl\<rparr>,
    \<lparr>t_id = ''tool:update_list'', t_name = ''update_list'', t_title = ''Update List'',
      t_description = ''Updates a list.'', t_url = repoUrl\<rparr>,
    \<lparr>t_id = ''tool:delete_list'', t_name = ''delete_list'', t_title = ''Delete List'',
      t_description = ''Deletes a list.'', t_url = repoUrl\<rparr>,
    \<lparr>t_id = ''tool:create_folder'', t_name = ''create_folder'', t_title = ''Create Folder'',
      t_description = ''Creates a folder within a space.'', t_url = repoUrl\<rparr>,
    \<lparr>t_id = ''tool:get_folder'', t_name = ''get_folder'', t_title = ''Get Folder'',
      t_description = ''Retrieves a folder by ID.'', t_url = repoUrl\<rparr>,
    \<lparr>t_id = ''tool:update_folder'', t_name = ''update_folder'', t_title = ''Update Folder'',
      t_description = ''Updates a folder.'', t_url = repoUrl\<rparr>,
    \<lparr>t_id = ''tool:delete_folder'', t_name = ''delete_folder'', t_title = ''Delete Folder'',
      t_description = ''Deletes a folder.'', t_url = repoUrl\<rparr>,
    \<lparr>t_id = ''tool:get_space_tags'', t_name = ''get_space_tags'', t_title = ''Get Space Tags'',
      t_description = ''Lists all tags in a space.'', t_url = repoUrl\<rparr>,
    \<lparr>t_id = ''tool:add_tag_to_task'', t_name = ''add_tag_to_task'', t_title = ''Add Tag to Task'',
      t_description = ''Adds a tag to a task.'', t_url = repoUrl\<rparr>,
    \<lparr>t_id = ''tool:remove_tag_from_task'', t_name = ''remove_tag_from_task'', t_title = ''Remove Tag from Task'',
      t_description = ''Removes a tag from a task.'', t_url = repoUrl\<rparr>,
    \<lparr>t_id = ''tool:get_workspace_members'', t_name = ''get_workspace_members'', t_title = ''Get Workspace Members'',
      t_description = ''Returns all members in the workspace.'', t_url = repoUrl\<rparr>,
    \<lparr>t_id = ''tool:find_member_by_name'', t_name = ''find_member_by_name'', t_title = ''Find Member by Name'',
      t_description = ''Finds a member by name or email.'', t_url = repoUrl\<rparr>,
    \<lparr>t_id = ''tool:resolve_assignees'', t_name = ''resolve_assignees'', t_title = ''Resolve Assignees'',
      t_description = ''Resolves names/emails to user IDs.'', t_url = repoUrl\<rparr>,
    \<lparr>t_id = ''tool:create_document'', t_name = ''create_document'', t_title = ''Create Document'',
      t_description = ''Creates a document in a space, folder, or list.'', t_url = repoUrl\<rparr>,
    \<lparr>t_id = ''tool:get_document'', t_name = ''get_document'', t_title = ''Get Document'',
      t_description = ''Gets details of a ClickUp document.'', t_url = repoUrl\<rparr>,
    \<lparr>t_id = ''tool:list_documents'', t_name = ''list_documents'', t_title = ''List Documents'',
      t_description = ''Lists documents under a parent container.'', t_url = repoUrl\<rparr>,
    \<lparr>t_id = ''tool:list_document_pages'', t_name = ''list_document_pages'', t_title = ''List Document Pages'',
      t_description = ''Lists pages in a document.'', t_url = repoUrl\<rparr>,
    \<lparr>t_id = ''tool:get_document_pages'', t_name = ''get_document_pages'', t_title = ''Get Document Pages'',
      t_description = ''Gets content of specific document pages.'', t_url = repoUrl\<rparr>,
    \<lparr>t_id = ''tool:create_document_page'', t_name = ''create_document_page'', t_title = ''Create Document Page'',
      t_description = ''Creates a new page in a document.'', t_url = repoUrl\<rparr>,
    \<lparr>t_id = ''tool:update_document_page'', t_name = ''update_document_page'', t_title = ''Update Document Page'',
      t_description = ''Updates a document page.'', t_url = repoUrl\<rparr>]"

section \<open>Catalog text matching (tools/search.ts, toolCatalogMatches)\<close>

definition isSeparator :: "char \<Rightarrow> bool" where
  \<comment> \<open>the character class of the split pattern: slash, underscore, hyphen, white space\<close>
  "isSeparator c \<longleftrightarrow> c = CHR ''/'' \<or> c = CHR ''_'' \<or> c = CHR ''-'' \<or> isWhiteSpace c"

definition splitParts :: "string \<Rightarrow> string list" where
  \<comment> \<open>\<open>s.split(/[\/\_\-\s]+/).filter(p => p.length > 0)\<close>: a run of separators leaves
      only empty pieces, which the filter drops\<close>
  "splitParts s = filter (\<lambda>p. length p > 0) (split_when isSeparator s)"

fun anyPartMatches :: "string \<Rightarrow> string list \<Rightarrow> bool" where
  \<comment> \<open>the inner loop, left at the first tool part that matches\<close>
  "anyPartMatches qPart [] = False"
| "anyPartMatches qPart (tPart # rest) =
     (if str_includes tPart qPart \<or> str_includes qPart tPart then True
      else anyPartMatches qPart rest)"

fun countMatches :: "string list \<Rightarrow> string list \<Rightarrow> nat \<Rightarrow> nat" where
  \<comment> \<open>the outer loop over the query parts, with the counter \<open>matches\<close>\<close>
  "countMatches [] toolParts matches = matches"
| "countMatches (qPart # rest) toolParts matches =
     (if length qPart < 2 then countMatches rest toolParts matches
      else countMatches rest toolParts
             (if anyPartMatches qPart toolParts then matches + 1 else matches))"

definition toolText :: "ToolCatalogEntry \<Rightarrow> string" where
  "toolText tool =
     toLowerCase (t_id tool @ '' '' @ t_name tool @ '' '' @ t_title tool @ '' '' @ t_description tool)"

definition floor06 :: "nat \<Rightarrow> nat" where
  \<comment> \<open>\<open>Math.floor(n * 0.6)\<close>: the double nearest to 0.6 is below it by less than
      \<open>3 * 10^-17\<close>, so the product rounds to \<open>3n/5\<close> when that is an integer and
      otherwise lies at least 0.2 away from the next integer\<close>
  "floor06 n = (3 * n) div 5"

definition toolCatalogMatches :: "ToolCatalogEntry \<Rightarrow> string \<Rightarrow> bool" where
  "toolCatalogMatches tool query =
     (let q = toLowerCase query in
      if str_includes (toolText tool) q then True
      else
        let queryParts = splitParts q;
            toolParts = splitParts (toolText tool);
            matches = countMatches queryParts toolParts 0
        in matches \<ge> max 1 (floor06 (length queryParts)))"

section \<open>Array.prototype.sort\<close>

text \<open>
  \<open>xs.sort(cmp)\<close> is stable, and a comparator result \<open>NaN\<close> counts as \<open>+0\<close>. For a
  comparator that orders the elements consistently the result is the one stable sorted
  arrangement, which insertion from the right computes: an element is put in front of
  the first later element it does not have to follow.
\<close>

definition mayPrecede :: "('a \<Rightarrow> 'a \<Rightarrow> int option) \<Rightarrow> 'a \<Rightarrow> 'a \<Rightarrow> bool" where
  "mayPrecede cmp a b = (case cmp a b of None \<Rightarrow> True | Some v \<Rightarrow> v \<le> 0)"

fun insertBy :: "('a \<Rightarrow> 'a \<Rightarrow> int option) \<Rightarrow> 'a \<Rightarrow> 'a list \<Rightarrow> 'a list" where
  "insertBy cmp x [] = [x]"
| "insertBy cmp x (y # ys) =
     (if mayPrecede cmp x y then x # y # ys else y # insertBy cmp x ys)"

definition js_sort :: "('a \<Rightarrow> 'a \<Rightarrow> int option) \<Rightarrow> 'a list \<Rightarrow> 'a list" where
  "js_sort cmp xs = foldr (insertBy cmp) xs []"

section \<open>The universal search handler (tools/search.ts, handleSearch)\<close>

record TaskSummary =
  s_id :: string
  s_name :: string
  s_status :: "string option"
  s_list_name :: "string option"  \<comment> \<open>\<open>s?.list?.name\<close>\<close>
  s_url :: "string option"
  s_date_updated :: "string option"

text \<open>
  The handler imports the backend service, the Matching Engine \<open>isNameMatch\<close> and the
  configuration from other modules. They are the fields of an environment: what the one
  backend call does, the matching function, and the flag. Every theorem below holds for
  all environments.
\<close>

record NameMatch =
  isMatch :: bool
  score :: int

record SearchEnv =
  getTaskSummaries :: "string + TaskSummary list"
    \<comment> \<open>the call throws (\<open>Inl\<close> the message) or returns the summaries\<close>
  isNameMatch :: "string \<Rightarrow> string \<Rightarrow> NameMatch"
    \<comment> \<open>applied to a title and the query\<close>
  openAiToolIndexFallback :: bool

record SearchArgs =
  a_query :: "string option"
  a_search :: "string option"
  a_q :: "string option"
  a_limit :: "int option"
    \<comment> \<open>the integer the tool's input schema declares; \<open>None\<close> when absent or null.
        \<open>parseInt(String(n), 10)\<close> reads an integer \<open>n\<close> back (below \<open>10^21\<close>, where
        \<open>String\<close> turns to exponent notation).\<close>

datatype SearchParams = ParamString string | ParamObject SearchArgs

record SearchResultItem =
  r_id :: string
  r_title :: string
  r_text :: "string option"
  r_snippet :: string
  r_url :: string
  r_status :: "string option"
  r_list :: "string option"

record SearchResponse =
  ids :: "string list"
  objectIds :: "string list"
  results :: "SearchResultItem list"
  \<comment> \<open>\<open>content\<close>, \<open>structuredContent\<close> and \<open>toolResult\<close> repeat these three fields\<close>

record Ranked =
  k_t :: TaskSummary
  k_score :: int
  k_matched :: bool

definition orElse :: "'a option \<Rightarrow> 'a \<Rightarrow> 'a" where
  \<comment> \<open>\<open>x ?? d\<close>\<close>
  "orElse x d = (case x of None \<Rightarrow> d | Some v \<Rightarrow> v)"

definition queryOf :: "SearchParams \<Rightarrow> string" where
  "queryOf params =
     trim (case params of
             ParamString s \<Rightarrow> s
           | ParamObject a \<Rightarrow>
               (case a_query a of Some v \<Rightarrow> v
                | None \<Rightarrow> (case a_search a of Some v \<Rightarrow> v
                   | None \<Rightarrow> (case a_q a of Some v \<Rightarrow> v | None \<Rightarrow> []))))"

definition rawLimitOf :: "SearchParams \<Rightarrow> int" where
  "rawLimitOf params =
     (case params of ParamString s \<Rightarrow> 10 | ParamObject a \<Rightarrow> orElse (a_limit a) 10)"

definition limitOf :: "SearchParams \<Rightarrow> int" where
  "limitOf params = max 1 (min (rawLimitOf params) 50)"

definition dateNumber :: "string option \<Rightarrow> int option" where
  \<comment> \<open>\<open>d ? parseInt(d, 10) : 0\<close>\<close>
  "dateNumber d =
     (case d of None \<Rightarrow> Some 0 | Some s \<Rightarrow> if s = [] then Some 0 else parseInt10 s)"

definition compareDates :: "TaskSummary \<Rightarrow> TaskSummary \<Rightarrow> int option" where
  "compareDates a b =
     (case (dateNumber (s_date_updated a), dateNumber (s_date_updated b)) of
        (Some ad, Some bd) \<Rightarrow> Some (bd - ad)
      | _ \<Rightarrow> None)"

definition compareRanked :: "Ranked \<Rightarrow> Ranked \<Rightarrow> int option" where
  "compareRanked a b =
     (if k_score b \<noteq> k_score a then Some (k_score b - k_score a)
      else compareDates (k_t a) (k_t b))"


definition rankOne :: "SearchEnv \<Rightarrow> string \<Rightarrow> TaskSummary \<Rightarrow> Ranked" where
  \<comment> \<open>the callback of \<open>summaries.map\<close>\<close>
  "rankOne env query t =
     (let m = isNameMatch env (s_name t) query
      in \<lparr>k_t = t, k_score = score m, k_matched = isMatch m\<rparr>)"

definition rankSummaries :: "SearchEnv \<Rightarrow> string \<Rightarrow> int \<Rightarrow> TaskSummary list \<Rightarrow> Ranked list" where
  "rankSummaries env query limit summaries =
     slice0 (js_sort compareRanked (filter k_matched (map (rankOne env query) summaries))) limit"


definition summaryResult :: "TaskSummary \<Rightarrow> SearchResultItem" where
  "summaryResult s =
     (let listName = orElse (s_list_name s) ''Unknown list'';
          status = orElse (s_status s) ''unknown'';
          url = orElse (s_url s) []
      in \<lparr>r_id = s_id s, r_title = s_name s,
          r_text = Some (s_name s @ (if url \<noteq> [] then CHR 0x0A # url else [])),
          r_snippet = ''Status: '' @ status @ ''; List: '' @ listName,
          r_url = url, r_status = Some status, r_list = Some listName\<rparr>)"

definition catalogResult :: "ToolCatalogEntry \<Rightarrow> SearchResultItem" where
  \<comment> \<open>the entry as the no-match fallback pushes it\<close>
  "catalogResult t =
     \<lparr>r_id = t_id t, r_title = t_title t,
      r_text = Some (t_title t @ [CHR 0x0A, CHR 0x0A] @ t_description t
                      @ [CHR 0x0A, CHR 0x0A] @ ''Reference: '' @ t_url t),
      r_snippet = t_description t, r_url = t_url t, r_status = None, r_list = None\<rparr>"

definition catalogBrief :: "ToolCatalogEntry \<Rightarrow> SearchResultItem" where
  \<comment> \<open>the entry as the empty-query and error paths map it: id, title, snippet, url\<close>
  "catalogBrief t =
     \<lparr>r_id = t_id t, r_title = t_title t, r_text = None,
      r_snippet = t_description t, r_url = t_url t, r_status = None, r_list = None\<rparr>"

definition respond :: "string list \<Rightarrow> SearchResultItem list \<Rightarrow> SearchResponse" where
  "respond is rs = \<lparr>ids = is, objectIds = is, results = rs\<rparr>"

definition recentFallback :: "SearchEnv \<Rightarrow> string \<Rightarrow> int \<Rightarrow> TaskSummary list \<Rightarrow> SearchResponse" where
  \<comment> \<open>the branch \<open>ranked.length === 0\<close>\<close>
  "recentFallback env query limit summaries =
     (let fallback = slice0 (js_sort compareDates summaries) limit;
          structuredResults = map summaryResult fallback;
          objectIds = map s_id fallback;
          toolMatches =
            (if openAiToolIndexFallback env
             then slice0 (filter (\<lambda>t. toolCatalogMatches t query) toolCatalog)
                    (max 0 (limit - int (length structuredResults)))
             else [])
      in respond (slice0 (objectIds @ map t_id toolMatches) limit)
           (slice0 (structuredResults @ map catalogResult toolMatches) limit))"

definition catchQueryOf :: "SearchParams \<Rightarrow> string" where
  \<comment> \<open>\<open>(params?.query || '').toString().trim()\<close>, as the \<open>catch\<close> block reads the
      query again\<close>
  "catchQueryOf params =
     trim (case params of ParamString s \<Rightarrow> [] | ParamObject a \<Rightarrow> orElse (a_query a) [])"

definition searchFailed :: "SearchEnv \<Rightarrow> SearchParams \<Rightarrow> SearchResponse" where
  \<comment> \<open>the \<open>catch\<close> block\<close>
  "searchFailed env params =
     (if openAiToolIndexFallback env then
        let searchQuery = catchQueryOf params;
            toolMatches =
              map catalogBrief
                (slice0 (filter (\<lambda>t. toolCatalogMatches t searchQuery) toolCatalog) 10)
        in respond (map r_id toolMatches) toolMatches
      else respond [] [])"

definition searchBody :: "SearchEnv \<Rightarrow> SearchParams \<Rightarrow> nat \<times> (string + SearchResponse)" where
  \<comment> \<open>the \<open>try\<close> block: the number of backend calls made, and either the exception
      thrown (\<open>Inl\<close>) or the value returned\<close>
  "searchBody env params =
     (let query = queryOf params; limit = limitOf params in
      if query = [] then
        let toolMatches = map catalogBrief (slice0 toolCatalog limit)
        in (0, Inr (respond (map r_id toolMatches) toolMatches))
      else
        (case getTaskSummaries env of
           Inl message \<Rightarrow> (1, Inl message)
         | Inr summaries \<Rightarrow>
             let ranked = rankSummaries env query limit summaries in
             if length ranked = 0 then (1, Inr (recentFallback env query limit summaries))
             else (1, Inr (respond (map (\<lambda>r. s_id (k_t r)) ranked)
                             (map (\<lambda>r. summaryResult (k_t r)) ranked)))))"

definition handleSearch :: "SearchEnv \<Rightarrow> SearchParams \<Rightarrow> nat \<times> SearchResponse" where
  \<comment> \<open>\<open>try { ... } catch { ... }\<close>: the handler itself never throws\<close>
  "handleSearch env params =
     (case searchBody env params of
        (calls, Inr response) \<Rightarrow> (calls, response)
      | (calls, Inl message) \<Rightarrow> (calls, searchFailed env params))"

section \<open>The universal fetch handler (tools/fetch.ts, handleFetch)\<close>

record Task =
  task_id :: string
  task_name :: string
  task_status :: "string option"  \<comment> \<open>\<open>task.status?.status\<close>\<close>
  task_list_name :: "string option"  \<comment> \<open>\<open>task.list?.name\<close>\<close>
  task_url :: "string option"
  task_text_content :: "string option"
  task_description :: "string option"

datatype FetchParams = FetchString string | FetchObject "string option"

datatype RawRecord = RawEntry ToolCatalogEntry | RawTask Task

record FetchDocument =
  d_id :: string
  d_title :: string
  d_text :: string
  d_url :: string
  d_metadata :: "(string \<times> string option) list"
    \<comment> \<open>the keys in order; \<open>None\<close> is the value \<open>undefined\<close>\<close>
  d_raw :: RawRecord

datatype FetchResult =
    ErrorResponse string "string option"
      \<comment> \<open>\<open>sponsorService.createErrorResponse(message, { error })\<close>\<close>
  | Document FetchDocument

definition newline :: string where
  "newline = [CHR 0x0A]"

definition entryDocument :: "ToolCatalogEntry \<Rightarrow> FetchDocument" where
  "entryDocument entry =
     \<lparr>d_id = t_id entry, d_title = t_title entry,
      d_text = t_title entry @ newline @ newline @ t_description entry
                 @ newline @ newline @ ''Reference: '' @ t_url entry,
      d_url = t_url entry,
      d_metadata = [(''name'', Some (t_name entry)), (''category'', Some ''tool'')],
      d_raw = RawEntry entry\<rparr>"

definition pushIf :: "bool \<Rightarrow> 'a \<Rightarrow> 'a list \<Rightarrow> 'a list" where
  \<comment> \<open>\<open>if (c) xs.push(x)\<close>\<close>
  "pushIf c x xs = (if c then xs @ [x] else xs)"

definition taskDocument :: "Task \<Rightarrow> FetchDocument" where
  "taskDocument task =
     (let status = orElse (task_status task) ''unknown'';
          listName = orElse (task_list_name task) [];
          url = orElse (task_url task) [];
          description = orElse (task_text_content task) (orElse (task_description task) []);
          textParts = pushIf (description \<noteq> []) description [];
          textParts = pushIf (status \<noteq> []) (''Status: '' @ status) textParts;
          textParts = pushIf (listName \<noteq> []) (''List: '' @ listName) textParts;
          textParts = pushIf (url \<noteq> []) url textParts
      in \<lparr>d_id = task_id task, d_title = task_name task,
          d_text = join newline textParts, d_url = url,
          d_metadata = [(''status'', Some status),
                        (''list'', if listName \<noteq> [] then Some listName else None)],
          d_raw = RawTask task\<rparr>)"

definition fetchIdOf :: "FetchParams \<Rightarrow> string option" where
  "fetchIdOf params =
     (case params of
        FetchString s \<Rightarrow> Some s
      | FetchObject i \<Rightarrow> (case i of None \<Rightarrow> None | Some v \<Rightarrow> if v \<noteq> [] then Some v else None))"

definition fetchBody :: "(string \<Rightarrow> string + Task) \<Rightarrow> FetchParams \<Rightarrow> string list \<times> (string + FetchResult)" where
  \<comment> \<open>the \<open>try\<close> block: the ids asked of the backend, and either the exception thrown
      (\<open>Inl\<close>) or the value returned\<close>
  "fetchBody getTask params =
     (case fetchIdOf params of
        None \<Rightarrow> ([], Inr (ErrorResponse ''Missing required parameter: id'' None))
      | Some docId \<Rightarrow>
          if docId = [] then ([], Inr (ErrorResponse ''Missing required parameter: id'' None))
          else if startsWith docId ''tool:'' then
            (case find (\<lambda>e. t_id e = docId) toolCatalog of
               None \<Rightarrow> ([], Inr (ErrorResponse (''Unknown tool id: '' @ docId) None))
             | Some entry \<Rightarrow> ([], Inr (Document (entryDocument entry))))
          else
            (case getTask docId of
               Inl message \<Rightarrow> ([docId], Inl message)
             | Inr task \<Rightarrow> ([docId], Inr (Document (taskDocument task)))))"

definition handleFetch :: "(string \<Rightarrow> string + Task) \<Rightarrow> FetchParams \<Rightarrow> string list \<times> FetchResult" where
  "handleFetch getTask params =
     (case fetchBody getTask params of
        (asked, Inr result) \<Rightarrow> (asked, result)
      | (asked, Inl message) \<Rightarrow> (asked, ErrorResponse ''Fetch failed'' (Some message)))"

section \<open>The transport server: Accept normalization\<close>





section \<open>The transport server: REST aliases and session routing\<close>

record RestItem =
  i_id :: string
  i_title :: string
  i_text :: string
  i_url :: string
  i_snippet :: string
  i_source_url :: string
  i_metadata :: "(string \<times> string option) list"

datatype JsonBody =
    ResultsBody "RestItem list"  \<comment> \<open>\<open>{ results }\<close>\<close>
  | DocumentBody string string "(string \<times> string option) list"  \<comment> \<open>\<open>{ id, content, metadata }\<close>\<close>
  | ErrorBody string  \<comment> \<open>\<open>{ error }\<close>\<close>
  | RpcErrorBody int string  \<comment> \<open>\<open>{ jsonrpc: '2.0', error: { code, message }, id: null }\<close>\<close>

datatype HttpReply = Json nat JsonBody  \<comment> \<open>\<open>res.status(n).json(body)\<close>\<close>


definition truthy :: "string option \<Rightarrow> bool" where
  "truthy h = (case h of None \<Rightarrow> False | Some s \<Rightarrow> s \<noteq> [])"

definition orString :: "string option \<Rightarrow> string \<Rightarrow> string" where
  \<comment> \<open>\<open>h || d\<close> for a string \<open>d\<close>\<close>
  "orString h d = (if truthy h then the h else d)"

definition catalogItem :: "ToolCatalogEntry \<Rightarrow> RestItem" where
  "catalogItem item =
     \<lparr>i_id = t_id item, i_title = t_title item,
      i_text = t_title item @ newline @ newline @ t_description item
                 @ newline @ newline @ ''Reference: '' @ t_url item,
      i_url = t_url item, i_snippet = t_description item, i_source_url = t_url item,
      i_metadata = [(''name'', Some (t_name item)), (''category'', Some ''tool'')]\<rparr>"

definition restItem :: "SearchResultItem \<Rightarrow> RestItem" where
  \<comment> \<open>a handler result has no \<open>description\<close> and no \<open>category\<close>\<close>
  "restItem item =
     \<lparr>i_id = r_id item, i_title = r_title item,
      i_text = (if truthy (r_text item) then the (r_text item) else r_snippet item),
      i_url = r_url item, i_snippet = r_snippet item, i_source_url = r_url item,
      i_metadata = [(''status'', r_status item), (''list'', r_list item), (''category'', None)]\<rparr>"

definition restLimit :: "string \<Rightarrow> int" where
  \<comment> \<open>\<open>Math.min(parseInt(rawLimit) || 10, 50)\<close>\<close>
  "restLimit rawLimit =
     min (case parseInt rawLimit of None \<Rightarrow> 10 | Some v \<Rightarrow> if v = 0 then 10 else v) 50"

record SearchQuery =
  query_q :: "string option"
  query_query :: "string option"
  query_limit :: "string option"
  query_top_k :: "string option"
  query_k :: "string option"
  query_n :: "string option"

definition searchArgs :: "string \<Rightarrow> int \<Rightarrow> SearchParams" where
  \<comment> \<open>\<open>{ query, limit }\<close>\<close>
  "searchArgs query limit =
     ParamObject \<lparr>a_query = Some query, a_search = None, a_q = None, a_limit = Some limit\<rparr>"

definition getSearch :: "(SearchParams \<Rightarrow> string + SearchResponse) \<Rightarrow> SearchQuery \<Rightarrow> HttpReply" where
  \<comment> \<open>\<open>app.get('/search')\<close> and \<open>app.get('/mcp/search')\<close>, over the search handler they
      import (\<open>Inl\<close> if it throws). A catalog entry that stands in for an empty result
      is read by the final mapping like a handler result with the same id, title, text,
      url and snippet.\<close>
  "getSearch search req =
     (let query = orString (query_q req) (orString (query_query req) []);
          rawLimit = orString (query_limit req) (orString (query_top_k req)
                       (orString (query_k req) (orString (query_n req) ''10'')));
          limit = restLimit rawLimit
      in if trim query = [] then
           Json 200 (ResultsBody (map catalogItem (slice0 toolCatalog limit)))
         else
           (case search (searchArgs query limit) of
              Inl message \<Rightarrow> Json 500 (ErrorBody ''Internal server error'')
            | Inr result \<Rightarrow>
                let items = results result;
                    items = (if length items = 0
                             then map catalogResult (slice0 toolCatalog limit) else items)
                in if length items > 0 then Json 200 (ResultsBody (map restItem items))
                   else Json 200 (ResultsBody [])))"

definition searchHandler :: "SearchEnv \<Rightarrow> SearchParams \<Rightarrow> string + SearchResponse" where
  \<comment> \<open>\<open>handleSearch\<close> as the endpoints await it\<close>
  "searchHandler env params = Inr (snd (handleSearch env params))"

record McpRequest =
  mcp_session_id :: "string option"
  x_original_uri :: "string option"
  x_rewrite_url :: "string option"
  x_forwarded_uri :: "string option"
  x_forwarded_url :: "string option"
  originalUrl :: string
  url :: string
  path :: string
  search_query :: SearchQuery
  query_id :: "string option"








section \<open>The catalog match as the specification words it\<close>

definition claimedCatalogMatch :: "ToolCatalogEntry \<Rightarrow> string \<Rightarrow> bool" where
  \<comment> \<open>the whole lowercased query is a substring of the entry's text, or the query
      tokens of length at least 2 that contain or are contained in some token of the
      entry are at least one and at least 60 percent of the query tokens of length at
      least 2\<close>
  "claimedCatalogMatch tool query =
     (let q = toLowerCase query;
          significant = filter (\<lambda>p. 2 \<le> length p) (splitParts q);
          hits = filter (\<lambda>p. list_ex (\<lambda>t. str_includes t p \<or> str_includes p t)
                                (splitParts (toolText tool))) significant
      in str_includes (toolText tool) q
         \<or> (1 \<le> length hits \<and> 3 * length significant \<le> 5 * length hits))"

section \<open>Sample data\<close>




lemma startsWith_prefix: "startsWith s q \<longleftrightarrow> prefix q s"
  by (induction s q rule: startsWith.induct) auto

lemma str_includes_sublist: "str_includes s q \<longleftrightarrow> sublist q s"
  by (induction s) (auto simp: startsWith_prefix sublist_Cons_right)

section \<open>Properties\<close>

lemma find_unique:
  "distinct (map f xs) \<Longrightarrow> e \<in> set xs \<Longrightarrow> f e = k \<Longrightarrow> find (\<lambda>x. f x = k) xs = Some e"
  by (induction xs) force+

lemma find_absent: "k \<notin> f ` set xs \<Longrightarrow> find (\<lambda>x. f x = k) xs = None"
  by (induction xs) auto

lemma catalog_ids_distinct: "distinct (map t_id toolCatalog)"
  by code_simp

subsection \<open>Fetching catalog documents\<close>

text \<open>
  Claim C6. An id that begins with \<open>tool:\<close> is resolved against the fallback catalog
  and the backend is never asked: the handler returns the document of the catalog entry
  with that id (id, title, the text assembled from title, description and reference
  url, url, metadata with name and category, and the entry itself as raw) when there is
  one, and the error response \<open>Unknown tool id\<close> when there is none. This holds for
  every backend, one that fails on each call included, so \<open>tool:search\<close> is always
  fetched.
\<close>

theorem fetch_tool_id:
  assumes tool: "prefix ''tool:'' docId"
    and params: "params = FetchObject (Some docId) \<or> params = FetchString docId"
  shows "fst (handleFetch getTask params) = [] \<and>
    (\<forall>entry \<in> set toolCatalog. t_id entry = docId \<longrightarrow>
       snd (handleFetch getTask params) =
         Document \<lparr>d_id = t_id entry, d_title = t_title entry,
           d_text = t_title entry @ [CHR 0x0A, CHR 0x0A] @ t_description entry
                      @ [CHR 0x0A, CHR 0x0A] @ ''Reference: '' @ t_url entry,
           d_url = t_url entry,
           d_metadata = [(''name'', Some (t_name entry)), (''category'', Some ''tool'')],
           d_raw = RawEntry entry\<rparr>) \<and>
    (docId \<notin> t_id ` set toolCatalog \<longrightarrow>
       snd (handleFetch getTask params) = ErrorResponse (''Unknown tool id: '' @ docId) None)"
proof -
  from tool have ne: "docId \<noteq> []" by auto
  from tool have sw: "startsWith docId ''tool:''" by (simp add: startsWith_prefix)
  from params ne have idOf: "fetchIdOf params = Some docId"
    by (auto simp: fetchIdOf_def)
  have body: "fetchBody getTask params =
      (case find (\<lambda>e. t_id e = docId) toolCatalog of
         None \<Rightarrow> ([], Inr (ErrorResponse (''Unknown tool id: '' @ docId) None))
       | Some entry \<Rightarrow> ([], Inr (Document (entryDocument entry))))"
    using idOf ne sw by (simp add: fetchBody_def)
  have calls: "fst (handleFetch getTask params) = []"
    by (simp add: handleFetch_def body split: option.splits)
  have found: "snd (handleFetch getTask params) = Document (entryDocument entry)"
    if "entry \<in> set toolCatalog" "t_id entry = docId" for entry
    using find_unique [OF catalog_ids_distinct that]
    by (simp add: handleFetch_def body)
  have missing: "snd (handleFetch getTask params) = ErrorResponse (''Unknown tool id: '' @ docId) None"
    if "docId \<notin> t_id ` set toolCatalog"
    using find_absent [OF that] by (simp add: handleFetch_def body)
  show ?thesis
    using calls found missing by (simp add: entryDocument_def newline_def)
qed

theorem fetch_tool_id_witness:
  "handleFetch (\<lambda>i. Inl ''backend unavailable'') (FetchObject (Some ''tool:search'')) =
     ([], Document \<lparr>d_id = ''tool:search'', d_title = ''Search'',
        d_text = ''Search'' @ [CHR 0x0A, CHR 0x0A]
                   @ ''Universal retrieval: search by keywords and return top-k IDs.''
                   @ [CHR 0x0A, CHR 0x0A]
                   @ ''Reference: https://github.com/TaazKareem/clickup-mcp-server'',
        d_url = ''https://github.com/TaazKareem/clickup-mcp-server'',
        d_metadata = [(''name'', Some ''search''), (''category'', Some ''tool'')],
        d_raw = RawEntry \<lparr>t_id = ''tool:search'', t_name = ''search'', t_title = ''Search'',
          t_description = ''Universal retrieval: search by keywords and return top-k IDs.'',
          t_url = ''https://github.com/TaazKareem/clickup-mcp-server''\<rparr>\<rparr>)"
proof -
  let ?e = "\<lparr>t_id = ''tool:search'', t_name = ''search'', t_title = ''Search'',
          t_description = ''Universal retrieval: search by keywords and return top-k IDs.'',
          t_url = ''https://github.com/TaazKareem/clickup-mcp-server''\<rparr>"
  have p: "prefix ''tool:'' ''tool:search''" by simp
  have mem: "?e \<in> set toolCatalog" by (simp add: toolCatalog_def repoUrl_def)
  from fetch_tool_id [OF p, of "FetchObject (Some ''tool:search'')" "\<lambda>i. Inl ''backend unavailable''"] mem
  show ?thesis by (auto simp: prod_eq_iff)
qed

subsection \<open>Limits and catalog matches\<close>

lemma limitOf_bounds: "1 \<le> limitOf params \<and> limitOf params \<le> 50"
  by (simp add: limitOf_def)


lemma length_slice0: "0 \<le> n \<Longrightarrow> length (slice0 xs n) \<le> nat n"
  by (simp add: slice0_def)

lemma length_toolCatalog: "length toolCatalog = 41"
  by (simp add: toolCatalog_def)


lemma toLowerCase_append: "toLowerCase (a @ b) = toLowerCase a @ toLowerCase b"
  by (simp add: toLowerCase_def)

lemma toolCatalogMatches_id_prefix:
  assumes "prefix q (t_id t)" and "toLowerCase q = q"
  shows "toolCatalogMatches t q"
proof -
  from assms(1) obtain r where "t_id t = q @ r" by (auto simp: prefix_def)
  then have "toolText t = q @ toLowerCase (r @ '' '' @ t_name t @ '' '' @ t_title t @ '' '' @ t_description t)"
    using assms(2) by (simp add: toolText_def toLowerCase_append)
  then have "sublist q (toolText t)" by (metis sublist_append_rightI)
  then show ?thesis
    by (simp add: toolCatalogMatches_def assms(2) str_includes_sublist)
qed

lemma catalog_ids_tool: "\<forall>t \<in> set toolCatalog. prefix ''tool'' (t_id t)"
  by (simp add: toolCatalog_def)

lemma tool_matches: "filter (\<lambda>t. toolCatalogMatches t ''tool'') toolCatalog = toolCatalog"
proof -
  have "toLowerCase ''tool'' = ''tool''" by code_simp
  with catalog_ids_tool have "\<forall>t \<in> set toolCatalog. toolCatalogMatches t ''tool''"
    by (auto intro: toolCatalogMatches_id_prefix)
  then show ?thesis by simp
qed


lemma search_success_within_limit:
  assumes ok: "getTaskSummaries env = Inr summaries"
  shows "length (results (snd (handleSearch env params))) \<le> nat (limitOf params)"
proof -
  have pos: "0 \<le> limitOf params" using limitOf_bounds [of params] by linarith
  note bound = length_slice0 [OF pos]
  show ?thesis
  proof (cases "queryOf params = []")
    case True
    then show ?thesis
      using bound [of toolCatalog] by (simp add: handleSearch_def searchBody_def Let_def respond_def)
  next
    case False
    show ?thesis
    proof (cases "rankSummaries env (queryOf params) (limitOf params) summaries = []")
      case True
      with False ok show ?thesis
        by (simp add: handleSearch_def searchBody_def Let_def respond_def recentFallback_def bound)
    next
      case nonempty: False
      have "length (rankSummaries env (queryOf params) (limitOf params) summaries) \<le> nat (limitOf params)"
        unfolding rankSummaries_def by (rule bound)
      with False nonempty ok show ?thesis
        by (simp add: handleSearch_def searchBody_def Let_def respond_def)
    qed
  qed
qed




subsection \<open>Search with an empty query\<close>




subsection \<open>Search when the backend fails\<close>



text \<open>
  Claim C2 at two inputs. With limit 3, a failing backend and the tool-index fallback
  enabled, the handler returns ten results: the error path cuts the catalog matches at
  10, not at the limit. And \<open>GET /search?limit=-5\<close> with no query cuts the catalog with
  the limit \<open>-5\<close>, which leaves 36 of its 41 entries: the REST endpoints bound the
  limit from above only.
\<close>

theorem error_path_ignores_limit:
  "length (results (snd (handleSearch
     \<lparr>getTaskSummaries = Inl ''ECONNREFUSED'',
      isNameMatch = (\<lambda>title query. \<lparr>isMatch = False, score = 0\<rparr>),
      openAiToolIndexFallback = True\<rparr>
     (searchArgs ''tool'' 3)))) = 10
   \<and> getSearch
     (searchHandler \<lparr>getTaskSummaries = Inr [],
      isNameMatch = (\<lambda>title query. \<lparr>isMatch = False, score = 0\<rparr>),
      openAiToolIndexFallback = False\<rparr>)
     \<lparr>query_q = None, query_query = None, query_limit = Some ''-5'', query_top_k = None,
      query_k = None, query_n = None\<rparr> =
     Json 200 (ResultsBody (map catalogItem (take 36 toolCatalog)))"
proof -
  have a: "length (results (snd (handleSearch
     \<lparr>getTaskSummaries = Inl ''ECONNREFUSED'',
      isNameMatch = (\<lambda>title query. \<lparr>isMatch = False, score = 0\<rparr>),
      openAiToolIndexFallback = True\<rparr>
     (searchArgs ''tool'' 3)))) = 10"
    by (simp add: handleSearch_def searchBody_def searchFailed_def Let_def queryOf_def
        catchQueryOf_def searchArgs_def orElse_def trim_def isWhiteSpace_def slice0_def
        respond_def tool_matches length_toolCatalog)
  have l: "restLimit ''-5'' = - 5"
    by (simp add: restLimit_def parseInt_def stripSign_def parseDigits_def isDigitIn_def
        digitValue_def digitsValue_def isWhiteSpace_def)
  have b: "getSearch
     (searchHandler \<lparr>getTaskSummaries = Inr [],
      isNameMatch = (\<lambda>title query. \<lparr>isMatch = False, score = 0\<rparr>),
      openAiToolIndexFallback = False\<rparr>)
     \<lparr>query_q = None, query_query = None, query_limit = Some ''-5'', query_top_k = None,
      query_k = None, query_n = None\<rparr> =
     Json 200 (ResultsBody (map catalogItem (take 36 toolCatalog)))"
    by (simp add: getSearch_def orString_def truthy_def l trim_def slice0_def length_toolCatalog)
  show ?thesis using a b by simp
qed

subsection \<open>Fetching backend records\<close>

text \<open>
  Claim C7. For an id that is not a catalog id, the handler asks the backend once and
  turns the record into a document: the title is the record's name; the text joins, with
  one line feed between them and in this order, the description (\<open>text_content\<close>, else
  \<open>description\<close>), the line \<open>Status: \<close> with the status (\<open>unknown\<close> when the record has
  none), the line \<open>List: \<close> with the list name, and the url, leaving out each component
  that is empty; the metadata carries the status and the list name; raw is the record
  itself.
\<close>

theorem fetch_task_document:
  assumes ne: "docId \<noteq> []"
    and notTool: "\<not> prefix ''tool:'' docId"
    and backend: "getTask docId = Inr task"
    and params: "params = FetchObject (Some docId) \<or> params = FetchString docId"
  shows "handleFetch getTask params =
    ([docId],
     Document
       \<lparr>d_id = task_id task, d_title = task_name task,
        d_text =
          join [CHR 0x0A]
            (filter (\<lambda>line. line \<noteq> [])
               [orElse (task_text_content task) (orElse (task_description task) []),
                if orElse (task_status task) ''unknown'' = [] then []
                else ''Status: '' @ orElse (task_status task) ''unknown'',
                if orElse (task_list_name task) [] = [] then []
                else ''List: '' @ orElse (task_list_name task) [],
                orElse (task_url task) []]),
        d_url = orElse (task_url task) [],
        d_metadata =
          [(''status'', Some (orElse (task_status task) ''unknown'')),
           (''list'', if orElse (task_list_name task) [] = [] then None
                      else Some (orElse (task_list_name task) []))],
        d_raw = RawTask task\<rparr>)"
proof -
  from params ne have idOf: "fetchIdOf params = Some docId"
    by (auto simp: fetchIdOf_def)
  from notTool have sw: "\<not> startsWith docId ''tool:''"
    by (simp add: startsWith_prefix)
  have body: "fetchBody getTask params = ([docId], Inr (Document (taskDocument task)))"
    using idOf ne sw backend by (simp add: fetchBody_def)
  have assembled: "d_text (taskDocument task) =
      join [CHR 0x0A]
        (filter (\<lambda>line. line \<noteq> [])
           [orElse (task_text_content task) (orElse (task_description task) []),
            if orElse (task_status task) ''unknown'' = [] then []
            else ''Status: '' @ orElse (task_status task) ''unknown'',
            if orElse (task_list_name task) [] = [] then []
            else ''List: '' @ orElse (task_list_name task) [],
            orElse (task_url task) []])"
    by (simp add: taskDocument_def Let_def pushIf_def newline_def)
  have doc: "taskDocument task = \<lparr>d_id = task_id task, d_title = task_name task,
      d_text = d_text (taskDocument task), d_url = orElse (task_url task) [],
      d_metadata =
        [(''status'', Some (orElse (task_status task) ''unknown'')),
         (''list'', if orElse (task_list_name task) [] = [] then None
                    else Some (orElse (task_list_name task) []))],
      d_raw = RawTask task\<rparr>"
    by (simp add: taskDocument_def Let_def)
  show ?thesis
    unfolding handleFetch_def body by (simp add: doc [unfolded assembled])
qed

theorem fetch_task_document_witness:
  "handleFetch
     (\<lambda>i. Inr \<lparr>task_id = ''86a1'', task_name = ''Invoice #1'', task_status = Some ''open'',
              task_list_name = None, task_url = Some ''https://app.clickup.com/t/86a1'',
              task_text_content = Some ''Send it'', task_description = None\<rparr>)
     (FetchObject (Some ''86a1'')) =
   ([''86a1''],
    Document
      \<lparr>d_id = ''86a1'', d_title = ''Invoice #1'',
       d_text = ''Send it'' @ [CHR 0x0A] @ ''Status: open'' @ [CHR 0x0A]
                  @ ''https://app.clickup.com/t/86a1'',
       d_url = ''https://app.clickup.com/t/86a1'',
       d_metadata = [(''status'', Some ''open''), (''list'', None)],
       d_raw = RawTask \<lparr>task_id = ''86a1'', task_name = ''Invoice #1'',
                 task_status = Some ''open'', task_list_name = None,
                 task_url = Some ''https://app.clickup.com/t/86a1'',
                 task_text_content = Some ''Send it'', task_description = None\<rparr>\<rparr>)"
proof -
  have ne: "''86a1'' \<noteq> []" by simp
  have nt: "\<not> prefix ''tool:'' ''86a1''" by simp
  show ?thesis
    using fetch_task_document [OF ne nt, of _ _ "FetchObject (Some ''86a1'')"]
    by (simp add: orElse_def)
qed

subsection \<open>Requests without a live session\<close>



subsection \<open>Sorting\<close>























subsection \<open>Search with matches\<close>



subsection \<open>Search without matches\<close>



subsection \<open>The catalog match predicate\<close>

lemma anyPartMatches_iff:
  "anyPartMatches qPart toolParts \<longleftrightarrow> (\<exists>t \<in> set toolParts. sublist qPart t \<or> sublist t qPart)"
  by (induction toolParts) (auto simp: str_includes_sublist)

lemma countMatches_filter:
  "countMatches queryParts toolParts n =
     n + length (filter (\<lambda>p. 2 \<le> length p \<and> anyPartMatches p toolParts) queryParts)"
  by (induction queryParts arbitrary: n) auto

text \<open>
  Claim C8, as amended. The catalog text-match predicate declares a match exactly when
  the whole lowercased query is a substring of the entry's combined text, or the number
  of query tokens of length at least 2 that are contained in, or contain, some token of
  the entry is at least \<open>max(1, floor(0.6 * n))\<close>, where \<open>n\<close> counts all the non-empty
  query tokens, the one-character tokens included.
\<close>

theorem catalog_match_policy:
  "toolCatalogMatches tool query \<longleftrightarrow>
     sublist (toLowerCase query) (toolText tool)
   \<or> max 1 ((3 * length (splitParts (toLowerCase query))) div 5)
       \<le> length (filter (\<lambda>p. 2 \<le> length p
                              \<and> (\<exists>t \<in> set (splitParts (toolText tool)). sublist p t \<or> sublist t p))
                   (splitParts (toLowerCase query)))"
  by (simp add: toolCatalogMatches_def Let_def countMatches_filter anyPartMatches_iff
      str_includes_sublist floor06_def)

theorem catalog_match_policy_witness:
  "toolCatalogMatches (hd toolCatalog) ''search zzz yyy''
   \<and> max 1 ((3 * length (splitParts (toLowerCase ''search zzz yyy''))) div 5) = 1"
proof -
  have "max 1 ((3 * length (splitParts (toLowerCase ''search zzz yyy''))) div 5) = 1"
    by code_simp
  moreover have "toolCatalogMatches (hd toolCatalog) ''search zzz yyy''"
    by code_simp
  ultimately show ?thesis
    using catalog_match_policy [of "hd toolCatalog" "''search zzz yyy''"] by simp
qed

text \<open>
  With the threshold worded as 60 percent of the tokens of length at least 2, the
  predicate would differ from the code both ways. For the query \<open>search zzz yyy\<close> and
  the entry \<open>tool:search\<close> one of three tokens matches and the code declares a match
  (the threshold is \<open>floor(1.8) = 1\<close>). For the query \<open>a b c d fetch\<close> and the entry
  \<open>tool:fetch\<close> the only token of length at least 2 matches, and the code declares no
  match (the threshold is \<open>floor(0.6 * 5) = 3\<close>).
\<close>

theorem catalog_match_differs:
  "toolCatalogMatches (toolCatalog ! 0) ''search zzz yyy''
   \<and> \<not> claimedCatalogMatch (toolCatalog ! 0) ''search zzz yyy''
   \<and> \<not> toolCatalogMatches (toolCatalog ! 1) ''a b c d fetch''
   \<and> claimedCatalogMatch (toolCatalog ! 1) ''a b c d fetch''"
  by code_simp

subsection \<open>Accept normalization\<close>

lemma split_when_nonempty: "split_when P s \<noteq> []"
  by (induction s) (auto split: list.splits)






lemma split_when_lead:
  "\<not> P c \<Longrightarrow> split_when P (c # s) = (c # hd (split_when P s)) # tl (split_when P s)"
  by (cases "split_when P s") (auto simp: split_when_nonempty)













subsection \<open>The shape of a search response\<close>

lemma map_slice0: "map f (slice0 xs e) = slice0 (map f xs) e"
  by (simp add: slice0_def take_map)

lemma r_id_summaryResult: "r_id (summaryResult s) = s_id s"
  by (simp add: summaryResult_def Let_def)

lemma r_id_catalogResult: "r_id (catalogResult t) = t_id t"
  by (simp add: catalogResult_def)

text \<open>
  On every path the handler returns \<open>ids\<close> and \<open>objectIds\<close> that are equal and list the
  ids of \<open>results\<close> in order.
\<close>

lemma search_response_shape:
  "ids (snd (handleSearch env params)) = objectIds (snd (handleSearch env params))
   \<and> ids (snd (handleSearch env params)) = map r_id (results (snd (handleSearch env params)))"
proof -
  have fallback: "recentFallback env q l ss =
      respond (map r_id (results (recentFallback env q l ss))) (results (recentFallback env q l ss))" for q l ss
    by (simp add: recentFallback_def Let_def respond_def map_slice0 comp_def
        r_id_summaryResult r_id_catalogResult)
  have failed: "searchFailed env params =
      respond (map r_id (results (searchFailed env params))) (results (searchFailed env params))"
    by (simp add: searchFailed_def Let_def respond_def)
  have "\<exists>rs. snd (handleSearch env params) = respond (map r_id rs) rs"
  proof (cases "queryOf params = []")
    case True
    then have "snd (handleSearch env params) =
        respond (map r_id (map catalogBrief (slice0 toolCatalog (limitOf params))))
          (map catalogBrief (slice0 toolCatalog (limitOf params)))"
      by (simp add: handleSearch_def searchBody_def Let_def del: map_map)
    then show ?thesis by (rule exI)
  next
    case False
    show ?thesis
    proof (cases "getTaskSummaries env")
      case (Inl message)
      with False have "snd (handleSearch env params) = searchFailed env params"
        by (simp add: handleSearch_def searchBody_def Let_def)
      with failed show ?thesis by metis
    next
      case (Inr summaries)
      show ?thesis
      proof (cases "rankSummaries env (queryOf params) (limitOf params) summaries = []")
        case True
        with False Inr have "snd (handleSearch env params) =
            recentFallback env (queryOf params) (limitOf params) summaries"
          by (simp add: handleSearch_def searchBody_def Let_def)
        with fallback show ?thesis by metis
      next
        case ranked: False
        let ?rs = "map (\<lambda>r. summaryResult (k_t r))
            (rankSummaries env (queryOf params) (limitOf params) summaries)"
        from ranked False Inr have "snd (handleSearch env params) = respond (map r_id ?rs) ?rs"
          by (simp add: handleSearch_def searchBody_def Let_def comp_def r_id_summaryResult)
        then show ?thesis by (rule exI)
      qed
    qed
  qed
  then obtain rs where "snd (handleSearch env params) = respond (map r_id rs) rs" ..
  then show ?thesis by (simp add: respond_def)
qed

end
